theory Spec2Isabelle
  imports Main "HOL-Library.Word"
begin

section \<open>Data model\<close>

text \<open>
  Go's \<open>int\<close> is a 64-bit two's complement integer on the platforms the crawler runs on:
  every counter and index of the engine is a \<open>64 word\<close>. Addition, subtraction and
  multiplication wrap around as Go's do, and the comparisons of the source are the signed
  ones (\<open>\<le>s\<close>, \<open><s\<close>); \<open>sint\<close> reads a word as the number Go prints.
\<close>

type_synonym go_int = "64 word"

text \<open>The two constants of \<open>net/http\<close> the engine uses.\<close>

definition StatusOK :: go_int where
  "StatusOK = 200"

definition StatusInternalServerError :: go_int where
  "StatusInternalServerError = 500"

text \<open>
  The \<open>Engine\<close> struct, with the fields that \<open>engine.go\<close> reads and writes. The
  unexported field \<open>done\<close> is \<open>done'\<close> here (\<open>done\<close> is a keyword of Isabelle).
  The handles of the struct (\<open>EntryPoint\<close>, \<open>Setup\<close>, \<open>ResponseChannel\<close>,
  \<open>Collector\<close>, \<open>ElasticClient\<close>, \<open>Lock\<close>) are not data of the model: the entry
  point and the channel are explicit arguments of the functions that use them.
\<close>

record Engine =
  Court :: string
  Base :: string
  Failures :: go_int
  MaxFailures :: go_int
  Start :: go_int
  End :: go_int
  PageSize :: go_int
  CurrentIndex :: go_int
  Recoveries :: go_int
  MaxRecoveries :: go_int
  IsConcurrent :: bool
  MaxReplicas :: go_int
  ReplicaRange :: go_int
  UseDefaultChannelControl :: bool
  done' :: bool

text \<open>
  \<open>NewEngine\<close> without options: Go's zero values, then the four defaults the constructor
  sets.
\<close>

definition NewEngine :: Engine where
  "NewEngine = \<lparr> Court = [], Base = [], Failures = 0, MaxFailures = 25, Start = 0, End = 0,
     PageSize = 1, CurrentIndex = 0, Recoveries = 0, MaxRecoveries = 5, IsConcurrent = False,
     MaxReplicas = 0, ReplicaRange = 0, UseDefaultChannelControl = True, done' = False \<rparr>"

section \<open>The failure and recovery policy\<close>

text \<open>\<open>shouldStop\<close>: the three branches of the source, in the source's order (the log line
  of the first branch is not modelled).\<close>

definition shouldStop :: "Engine \<Rightarrow> bool" where
  "shouldStop engine =
     (if MaxFailures engine \<le>s Failures engine then True
      else if IsConcurrent engine \<and> End engine <s CurrentIndex engine then True
      else if done' engine then True
      else False)"

text \<open>\<open>handleChannelStatus\<close>: one status received from the response channel.\<close>

definition handleChannelStatus :: "go_int \<Rightarrow> Engine \<Rightarrow> Engine" where
  "handleChannelStatus status engine =
     (if status \<noteq> StatusOK then engine\<lparr>Failures := Failures engine + 1\<rparr>
      else if 0 <s Failures engine then engine\<lparr>Failures := Failures engine - 1\<rparr>
      else engine)"

text \<open>\<open>setRecoveryStart\<close>: the rewind, guarded by \<open>CurrentIndex != 0\<close>.\<close>

definition setRecoveryStart :: "Engine \<Rightarrow> Engine" where
  "setRecoveryStart engine =
     (if CurrentIndex engine \<noteq> 0
      then engine\<lparr>Start := CurrentIndex engine - (Failures engine * PageSize engine)\<rparr>
      else engine)"

text \<open>\<open>Done\<close>: sets the done property.\<close>

definition Done :: "Engine \<Rightarrow> Engine" where
  "Done engine = engine\<lparr>done' := True\<rparr>"

section \<open>Persistence\<close>

text \<open>
  The outcome of the Elasticsearch index request of \<open>Persist\<close>: the \<open>err\<close> value that
  \<open>Do(context)\<close> returns, \<open>nil\<close> or an error with its message.
\<close>

datatype upsert_result = UpsertOk | UpsertErr string

text \<open>
  The response channel is the list of the statuses sent on it, oldest first. \<open>Persist\<close>
  sends \<open>StatusInternalServerError\<close> inside the \<open>if err != nil\<close> block; the block has no
  \<open>return\<close>, so control falls through to the send of \<open>StatusOK\<close> that ends the function.
\<close>

definition Persist :: "upsert_result \<Rightarrow> go_int list \<Rightarrow> go_int list" where
  "Persist err ResponseChannel =
     (let ch = (case err of
                  UpsertErr msg \<Rightarrow> ResponseChannel @ [StatusInternalServerError]
                | UpsertOk \<Rightarrow> ResponseChannel)
      in ch @ [StatusOK])"

section \<open>The entry point and the status listener\<close>















section \<open>The range allocator\<close>

text \<open>
  \<open>ControlConfig["LastGoRoutineRange"]\<close>, the shared cursor, is an explicit argument and
  result. The option \<open>Start\<close> (here \<open>StartOption\<close>, the field has the name) seeds it.
\<close>

definition StartOption :: "go_int \<Rightarrow> Engine \<times> go_int \<Rightarrow> Engine \<times> go_int" where
  "StartOption start = (\<lambda>(engine, LastGoRoutineRange). (engine\<lparr>Start := start\<rparr>, start))"

definition Concurrency :: "go_int \<Rightarrow> go_int \<Rightarrow> Engine \<Rightarrow> Engine" where
  "Concurrency maxReplicas replicaRange engine =
     (if 0 <s maxReplicas \<and> 0 <s replicaRange
      then engine\<lparr>IsConcurrent := True, MaxReplicas := maxReplicas, ReplicaRange := replicaRange\<rparr>
      else engine)"

text \<open>
  \<open>setRange\<close>, from the value it read from the cursor in its first line to the value it
  writes to the cursor between \<open>mutex.Lock()\<close> and \<open>mutex.Unlock()\<close>.
\<close>

definition setRange :: "Engine \<Rightarrow> go_int \<Rightarrow> Engine \<times> go_int" where
  "setRange engine LastGoRoutineRange =
     (let lastRange = LastGoRoutineRange;
          engine1 = (if - 1 <s lastRange then engine\<lparr>Start := lastRange\<rparr> else engine);
          engine2 = engine1\<lparr>End := Start engine1 + ReplicaRange engine1 - 1\<rparr>
      in (engine2, End engine2 + 1))"

text \<open>
  The replicas call \<open>setRange\<close> each in its own goroutine (\<open>go engine.spawnEngine\<close>, on a
  copy of the engine), and the read of the cursor is not inside the lock: only the write
  is. A call therefore takes two steps of the scheduler, the read and then the rest, and
  other replicas may run between the two.
\<close>

datatype replica = Spawned Engine | HasRead Engine go_int | Ranged Engine

fun setRangeStep :: "replica \<Rightarrow> go_int \<Rightarrow> replica \<times> go_int" where
  "setRangeStep (Spawned engine) LastGoRoutineRange =
     (HasRead engine LastGoRoutineRange, LastGoRoutineRange)"
| "setRangeStep (HasRead engine lastRange) LastGoRoutineRange =
     (case setRange engine lastRange of (engine', next) \<Rightarrow> (Ranged engine', next))"
| "setRangeStep (Ranged engine) LastGoRoutineRange = (Ranged engine, LastGoRoutineRange)"

text \<open>
  The replicas under a schedule: the list names, step by step, the replica that runs.
\<close>

fun runReplicas :: "nat list \<Rightarrow> replica list \<Rightarrow> go_int \<Rightarrow> replica list \<times> go_int" where
  "runReplicas [] replicas LastGoRoutineRange = (replicas, LastGoRoutineRange)"
| "runReplicas (i # schedule) replicas LastGoRoutineRange =
     (if i < length replicas then
        (case setRangeStep (replicas ! i) LastGoRoutineRange of
           (r, next) \<Rightarrow> runReplicas schedule (replicas[i := r]) next)
      else runReplicas schedule replicas LastGoRoutineRange)"

text \<open>The range \<open>(Start, End)\<close> of a replica that has one.\<close>

fun rangeOf :: "replica \<Rightarrow> (go_int \<times> go_int) option" where
  "rangeOf (Ranged engine) = Some (Start engine, End engine)"
| "rangeOf (Spawned engine) = None"
| "rangeOf (HasRead engine lastRange) = None"

section \<open>The replica coordinator\<close>







section \<open>Signed arithmetic of 64-bit words\<close>

lemma sint_word_of_int_64:
  "- (2 ^ 63) \<le> k \<Longrightarrow> k < 2 ^ 63 \<Longrightarrow> sint (word_of_int k :: go_int) = k"
  by (simp only: sint_sbintrunc') (simp add: signed_take_bit_int_eq_self)

lemma sint_add_64:
  fixes a b :: go_int
  assumes "- (2 ^ 63) \<le> sint a + sint b" and "sint a + sint b < 2 ^ 63"
  shows "sint (a + b) = sint a + sint b"
proof -
  have "a + b = word_of_int (sint a + sint b)" by simp
  then show ?thesis using sint_word_of_int_64 [OF assms] by simp
qed

lemma sint_sub_64:
  fixes a b :: go_int
  assumes "- (2 ^ 63) \<le> sint a - sint b" and "sint a - sint b < 2 ^ 63"
  shows "sint (a - b) = sint a - sint b"
proof -
  have "a - b = word_of_int (sint a - sint b)" by simp
  then show ?thesis using sint_word_of_int_64 [OF assms] by simp
qed

lemma sint_rewind_64:
  fixes a b c :: go_int
  assumes "- (2 ^ 63) \<le> sint a - sint b * sint c" and "sint a - sint b * sint c < 2 ^ 63"
  shows "sint (a - b * c) = sint a - sint b * sint c"
proof -
  have "a - b * c = word_of_int (sint a - sint b * sint c)" by simp
  then show ?thesis using sint_word_of_int_64 [OF assms] by simp
qed

section \<open>Auxiliary lemmas\<close>

subsection \<open>The failure counter\<close>

lemma handleChannelStatus_Failures:
  "Failures (handleChannelStatus status engine) =
     (if status \<noteq> StatusOK then Failures engine + 1
      else if 0 <s Failures engine then Failures engine - 1
      else Failures engine)"
  by (simp add: handleChannelStatus_def)

lemma handleChannelStatus_step:
  assumes "0 \<le> sint (Failures engine)" and "sint (Failures engine) < 2 ^ 63 - 1"
  shows "sint (Failures (handleChannelStatus status engine)) =
     (if status \<noteq> StatusOK then sint (Failures engine) + 1
      else if 0 < sint (Failures engine) then sint (Failures engine) - 1
      else sint (Failures engine))"
  using assms sint_lt [of "Failures engine"]
  by (simp add: handleChannelStatus_Failures word_sless_alt sint_add_64 sint_sub_64)

lemma fold_handleChannelStatus_bounds:
  assumes "0 \<le> sint (Failures engine)"
    and "sint (Failures engine) + int (length statuses) < 2 ^ 63"
  shows "0 \<le> sint (Failures (fold handleChannelStatus statuses engine))
         \<and> sint (Failures (fold handleChannelStatus statuses engine))
             \<le> sint (Failures engine) + int (length (filter (\<lambda>status. status \<noteq> StatusOK) statuses))"
  using assms
proof (induction statuses arbitrary: engine)
  case Nil
  then show ?case by simp
next
  case (Cons status statuses)
  let ?e = "handleChannelStatus status engine"
  have small: "sint (Failures engine) < 2 ^ 63 - 1"
    using Cons.prems(2) by simp
  note step = handleChannelStatus_step [OF Cons.prems(1) small, of status]
  have nonneg: "0 \<le> sint (Failures ?e)"
    using step Cons.prems(1) by (simp split: if_splits)
  have room: "sint (Failures ?e) + int (length statuses) < 2 ^ 63"
    using step Cons.prems(2) by (simp split: if_splits)
  from Cons.IH [OF nonneg room] step show ?case
    by (simp split: if_splits)
qed

subsection \<open>The entry point, the listener and the recovery loop\<close>

















section \<open>The stop predicate\<close>

text \<open>
  C1. \<open>shouldStop\<close> is true if and only if the failure count is at least the maximum, or
  the engine is concurrent and the current index is strictly greater than the end index,
  or the done flag is set. At the boundary: with the failure count equal to the maximum
  the engine stops; with the failure count one below the maximum (and neither of the two
  other conditions) it does not.
\<close>

theorem shouldStop_iff:
  "(shouldStop engine \<longleftrightarrow>
      MaxFailures engine \<le>s Failures engine
      \<or> (IsConcurrent engine \<and> End engine <s CurrentIndex engine)
      \<or> done' engine)
   \<and> (Failures engine = MaxFailures engine \<longrightarrow> shouldStop engine)
   \<and> (sint (Failures engine) = sint (MaxFailures engine) - 1
        \<and> \<not> (IsConcurrent engine \<and> End engine <s CurrentIndex engine)
        \<and> \<not> done' engine
       \<longrightarrow> \<not> shouldStop engine)"
  by (auto simp: shouldStop_def word_sle_eq word_sless_alt)

theorem shouldStop_iff_witness:
  "shouldStop (NewEngine\<lparr>Failures := 25\<rparr>)
   \<and> \<not> shouldStop (NewEngine\<lparr>Failures := 24\<rparr>)
   \<and> \<not> shouldStop (NewEngine\<lparr>Failures := 24, End := 10, CurrentIndex := 11\<rparr>)
   \<and> shouldStop (NewEngine\<lparr>Failures := 24, End := 10, CurrentIndex := 11, IsConcurrent := True\<rparr>)
   \<and> shouldStop (NewEngine\<lparr>done' := True\<rparr>)"
  using shouldStop_iff [of "NewEngine\<lparr>Failures := 25\<rparr>"]
    shouldStop_iff [of "NewEngine\<lparr>Failures := 24\<rparr>"]
    shouldStop_iff [of "NewEngine\<lparr>Failures := 24, End := 10, CurrentIndex := 11\<rparr>"]
    shouldStop_iff [of "NewEngine\<lparr>Failures := 24, End := 10, CurrentIndex := 11, IsConcurrent := True\<rparr>"]
    shouldStop_iff [of "NewEngine\<lparr>done' := True\<rparr>"]
  by (simp add: NewEngine_def word_sle_eq word_sless_alt)

text \<open>
  C9. In sequential mode the end index never stops the engine: with fewer failures than
  the maximum and the done flag unset, \<open>shouldStop\<close> is false wherever the current index
  is, so the end index bounds only concurrent runs.
\<close>

theorem shouldStop_sequential_ignores_End:
  assumes "\<not> IsConcurrent engine"
    and "Failures engine <s MaxFailures engine"
    and "\<not> done' engine"
  shows "\<not> shouldStop (engine\<lparr>CurrentIndex := i, End := j\<rparr>)"
  using assms by (simp add: shouldStop_def word_sle_eq word_sless_alt)

theorem shouldStop_sequential_ignores_End_witness:
  "\<not> shouldStop (NewEngine\<lparr>Failures := 3, CurrentIndex := 900, End := 10\<rparr>)
   \<and> shouldStop (NewEngine\<lparr>Failures := 3, CurrentIndex := 900, End := 10, IsConcurrent := True\<rparr>)"
proof -
  let ?e = "NewEngine\<lparr>Failures := 3\<rparr>"
  have seq: "\<not> IsConcurrent ?e"
    by (simp add: NewEngine_def)
  have few: "Failures ?e <s MaxFailures ?e"
    by (simp add: NewEngine_def word_sless_alt)
  have live: "\<not> done' ?e"
    by (simp add: NewEngine_def)
  from shouldStop_sequential_ignores_End [OF seq few live, where i = 900 and j = 10]
  have "\<not> shouldStop (NewEngine\<lparr>Failures := 3, CurrentIndex := 900, End := 10\<rparr>)"
    by simp
  moreover have "shouldStop (NewEngine\<lparr>Failures := 3, CurrentIndex := 900, End := 10,
      IsConcurrent := True\<rparr>)"
    by (simp add: shouldStop_def NewEngine_def word_sle_eq word_sless_alt)
  ultimately show ?thesis by simp
qed

section \<open>Marking an engine done\<close>

text \<open>
  C8. After one or more calls of \<open>Done\<close> the engine stops, and its failure and recovery
  counters are the ones it had; a second call changes nothing: \<open>n + 1\<close> calls leave the
  state that one call leaves.
\<close>

theorem Done_idempotent:
  "shouldStop ((Done ^^ Suc n) engine)
   \<and> Failures ((Done ^^ Suc n) engine) = Failures engine
   \<and> Recoveries ((Done ^^ Suc n) engine) = Recoveries engine
   \<and> Done (Done engine) = Done engine
   \<and> (Done ^^ Suc n) engine = Done engine"
proof -
  have same: "(Done ^^ Suc n) engine = Done engine"
    by (induction n) (simp_all add: Done_def)
  show ?thesis
    unfolding same by (simp add: Done_def shouldStop_def)
qed

section \<open>The recovery start\<close>

text \<open>
  C10. With the current index exactly 0, \<open>setRecoveryStart\<close> changes no field of the
  engine, \<open>Start\<close> included: the rewind is applied only when \<open>CurrentIndex \<noteq> 0\<close>.
\<close>

theorem setRecoveryStart_at_zero:
  "CurrentIndex engine = 0 \<Longrightarrow> setRecoveryStart engine = engine"
  by (simp add: setRecoveryStart_def)

theorem setRecoveryStart_at_zero_witness:
  "setRecoveryStart (NewEngine\<lparr>Failures := 3, Start := 7, PageSize := 5\<rparr>)
     = NewEngine\<lparr>Failures := 3, Start := 7, PageSize := 5\<rparr>
   \<and> Start (setRecoveryStart (NewEngine\<lparr>Failures := 3, Start := 7, PageSize := 5\<rparr>)) = 7"
proof -
  let ?e = "NewEngine\<lparr>Failures := 3, Start := 7, PageSize := 5\<rparr>"
  have zero: "CurrentIndex ?e = 0"
    by (simp add: NewEngine_def)
  from setRecoveryStart_at_zero [OF zero] show ?thesis
    by simp
qed

text \<open>
  C4, as the specification states it, for every state: the rewound start index is
  \<open>CurrentIndex - Failures * PageSize\<close>. It fails on a run that ended with the current
  index still 0: with 3 failures, page size 5 and start index 7 the start index stays 7,
  where the formula gives \<open>-15\<close>.
\<close>

theorem setRecoveryStart_every_state_counterexample:
  "Start (setRecoveryStart (NewEngine\<lparr>Failures := 3, Start := 7, PageSize := 5\<rparr>))
     \<noteq> CurrentIndex (NewEngine\<lparr>Failures := 3, Start := 7, PageSize := 5\<rparr>)
         - Failures (NewEngine\<lparr>Failures := 3, Start := 7, PageSize := 5\<rparr>)
           * PageSize (NewEngine\<lparr>Failures := 3, Start := 7, PageSize := 5\<rparr>)"
  by (simp add: setRecoveryStart_def NewEngine_def)

text \<open>
  C4, amended. For every state whose current index is not 0, \<open>setRecoveryStart\<close> sets the
  start index to \<open>CurrentIndex - Failures * PageSize\<close> (Go's wrapping arithmetic) and
  changes nothing else. The operation does not clamp: whenever the number
  \<open>CurrentIndex - Failures * PageSize\<close> fits Go's \<open>int\<close>, it is the new start index, also
  when it is negative.
\<close>

theorem setRecoveryStart_rewinds:
  assumes "CurrentIndex engine \<noteq> 0"
  shows "setRecoveryStart engine
           = engine\<lparr>Start := CurrentIndex engine - Failures engine * PageSize engine\<rparr>
         \<and> (- (2 ^ 63) \<le> sint (CurrentIndex engine) - sint (Failures engine) * sint (PageSize engine)
            \<and> sint (CurrentIndex engine) - sint (Failures engine) * sint (PageSize engine) < 2 ^ 63
            \<longrightarrow> sint (Start (setRecoveryStart engine))
                  = sint (CurrentIndex engine) - sint (Failures engine) * sint (PageSize engine))"
  using assms by (simp add: setRecoveryStart_def sint_rewind_64)

theorem setRecoveryStart_rewinds_witness:
  "Start (setRecoveryStart (NewEngine\<lparr>Failures := 3, PageSize := 5, CurrentIndex := 100\<rparr>)) = 85
   \<and> sint (Start (setRecoveryStart (NewEngine\<lparr>Failures := 3, PageSize := 5, CurrentIndex := 10\<rparr>)))
       = - 5"
proof -
  let ?a = "NewEngine\<lparr>Failures := 3, PageSize := 5, CurrentIndex := 100\<rparr>"
  let ?b = "NewEngine\<lparr>Failures := 3, PageSize := 5, CurrentIndex := 10\<rparr>"
  have a: "CurrentIndex ?a \<noteq> 0" and b: "CurrentIndex ?b \<noteq> 0"
    by (simp_all add: NewEngine_def)
  have "Start (setRecoveryStart ?a) = 85"
    using setRecoveryStart_rewinds [OF a] by (simp add: NewEngine_def)
  moreover have "sint (Start (setRecoveryStart ?b)) = - 5"
    using setRecoveryStart_rewinds [OF b] by (simp add: NewEngine_def)
  ultimately show ?thesis by simp
qed

section \<open>What Persist sends\<close>

text \<open>
  C3. The specification has \<open>Persist\<close> send exactly one status for an upsert, 200 when it
  succeeded and 500 when it failed. On a failed upsert the code sends two: 500, then 200;
  on a successful one it sends the single 200.
\<close>

theorem Persist_failed_upsert_sends_two:
  "Persist (UpsertErr msg) ResponseChannel = ResponseChannel @ [500, 200]
   \<and> Persist UpsertOk ResponseChannel = ResponseChannel @ [200]
   \<and> length (Persist (UpsertErr msg) []) = 2"
  by (simp add: Persist_def StatusOK_def StatusInternalServerError_def)

section \<open>The failure counter\<close>

text \<open>
  C5. Starting from a failure count of 0, after any number \<open>n\<close> of the statuses received
  the failure count is not negative and is at most the number of failure statuses among
  them. A status other than \<open>StatusOK\<close> adds one to the count; \<open>StatusOK\<close> takes one
  off only when the count is strictly positive. (The count is a 64-bit integer: the
  statement is for sequences of fewer than \<open>2 ^ 63\<close> statuses.)
\<close>

theorem handleChannelStatus_counter_bounded:
  assumes "Failures engine = 0" and "length statuses < 2 ^ 63"
  shows "Failures (handleChannelStatus status e) =
           (if status \<noteq> StatusOK then Failures e + 1
            else if 0 <s Failures e then Failures e - 1
            else Failures e)
         \<and> 0 \<le> sint (Failures (fold handleChannelStatus (take n statuses) engine))
         \<and> sint (Failures (fold handleChannelStatus (take n statuses) engine))
             \<le> int (length (filter (\<lambda>status. status \<noteq> StatusOK) (take n statuses)))"
proof -
  have "int (length (take n statuses)) \<le> int (length statuses)"
    by simp
  also have "\<dots> < 2 ^ 63"
    using assms(2) by simp
  finally have room: "sint (Failures engine) + int (length (take n statuses)) < 2 ^ 63"
    using assms(1) by simp
  have start: "0 \<le> sint (Failures engine)"
    using assms(1) by simp
  from fold_handleChannelStatus_bounds [OF start room] assms(1) show ?thesis
    by (simp add: handleChannelStatus_Failures)
qed

theorem handleChannelStatus_counter_bounded_witness:
  "map (\<lambda>n. sint (Failures (fold handleChannelStatus (take n [500, 200, 200, 404, 500, 200]) NewEngine)))
     [0, 1, 2, 3, 4, 5, 6] = [0, 1, 0, 0, 1, 2, 1]
   \<and> 0 \<le> sint (Failures (fold handleChannelStatus (take 3 [500, 200, 200, 404, 500, 200]) NewEngine))
   \<and> sint (Failures (fold handleChannelStatus (take 5 [500, 200, 200, 404, 500, 200]) NewEngine))
       \<le> int (length (filter (\<lambda>status. status \<noteq> StatusOK) (take 5 [500, 200, 200, 404, 500, 200])))"
proof -
  let ?sent = "[500, 200, 200, 404, 500, 200] :: go_int list"
  have zero: "Failures NewEngine = 0"
    by (simp add: NewEngine_def)
  have short: "length ?sent < 2 ^ 63"
    by simp
  note bounds = handleChannelStatus_counter_bounded [OF zero short]
  have "map (\<lambda>n. sint (Failures (fold handleChannelStatus (take n ?sent) NewEngine)))
     [0, 1, 2, 3, 4, 5, 6] = [0, 1, 0, 0, 1, 2, 1]"
    by (simp add: handleChannelStatus_def StatusOK_def NewEngine_def word_sless_alt)
  moreover have "0 \<le> sint (Failures (fold handleChannelStatus (take 3 ?sent) NewEngine))"
    using bounds [of _ _ 3] by blast
  moreover have "sint (Failures (fold handleChannelStatus (take 5 ?sent) NewEngine))
       \<le> int (length (filter (\<lambda>status. status \<noteq> StatusOK) (take 5 ?sent)))"
    using bounds [of _ _ 5] by blast
  ultimately show ?thesis
    by blast
qed

section \<open>The ranges of the replicas\<close>

text \<open>
  C2. The specification has every allocation start where the one before ended, so that
  the ranges of the replicas are contiguous and never overlap. \<open>setRange\<close> takes the lock
  for the write of the cursor only; the read, in its first line, is outside the lock.
  Two replicas that both read before either writes get the same range. After \<open>Start(0)\<close>
  and \<open>Concurrency(2, 10)\<close>, with both reads first, both replicas get \<open>[0, 9]\<close> and the
  cursor ends at 10; with the two calls one after the other they get \<open>[0, 9]\<close> and
  \<open>[10, 19]\<close>.
\<close>

theorem setRange_unlocked_read_repeats_range:
  "map rangeOf (fst (runReplicas [0, 1, 0, 1]
       [Spawned (Concurrency 2 10 (fst (StartOption 0 (NewEngine, - 1)))),
        Spawned (Concurrency 2 10 (fst (StartOption 0 (NewEngine, - 1))))]
       (snd (StartOption 0 (NewEngine, - 1)))))
     = [Some (0, 9), Some (0, 9)]
   \<and> snd (runReplicas [0, 1, 0, 1]
       [Spawned (Concurrency 2 10 (fst (StartOption 0 (NewEngine, - 1)))),
        Spawned (Concurrency 2 10 (fst (StartOption 0 (NewEngine, - 1))))]
       (snd (StartOption 0 (NewEngine, - 1)))) = 10
   \<and> map rangeOf (fst (runReplicas [0, 0, 1, 1]
       [Spawned (Concurrency 2 10 (fst (StartOption 0 (NewEngine, - 1)))),
        Spawned (Concurrency 2 10 (fst (StartOption 0 (NewEngine, - 1))))]
       (snd (StartOption 0 (NewEngine, - 1)))))
     = [Some (0, 9), Some (10, 19)]"
  by (simp add: StartOption_def Concurrency_def NewEngine_def setRange_def word_sless_alt)

section \<open>The sequential recovery loop\<close>




section \<open>The counters of the replica coordinator\<close>



end
